theory Spec2Isabelle
  imports Complex_Main "HOL-Library.AList"
begin

section \<open>Documents and values\<close>

text \<open>
  The service in \<^verbatim>\<open>server/lib/firebase-admin.ts\<close> reads and writes schemaless documents.
  A field value is one of the JavaScript values the file handles; numbers that occur are
  whole (limits, counts, days), a \<^verbatim>\<open>Timestamp\<close> is its number of milliseconds since the epoch
  (\<^verbatim>\<open>Timestamp.now()\<close> has millisecond resolution). A document is the list of its fields;
  \<open>map_of\<close> reads a field.
\<close>

datatype jsval =
    JUndefined
  | JNull
  | JBool bool
  | JNum int
  | JStr string
  | JTime int
  | JList "jsval list"
  | JObj "(string \<times> jsval) list"

type_synonym doc = "(string \<times> jsval) list"

text \<open>Property access \<^verbatim>\<open>d.k\<close>: an absent field reads as \<^verbatim>\<open>undefined\<close>.\<close>

definition get_field :: "doc \<Rightarrow> string \<Rightarrow> jsval" where
  "get_field d k = (case map_of d k of None \<Rightarrow> JUndefined | Some v \<Rightarrow> v)"

text \<open>JavaScript truthiness, as used by \<^verbatim>\<open>if (x)\<close>, \<^verbatim>\<open>!x\<close> and \<^verbatim>\<open>x || y\<close>.\<close>

fun truthy :: "jsval \<Rightarrow> bool" where
  "truthy JUndefined = False"
| "truthy JNull = False"
| "truthy (JBool b) = b"
| "truthy (JNum n) = (n \<noteq> 0)"
| "truthy (JStr s) = (s \<noteq> [])"
| "truthy (JTime t) = True"
| "truthy (JList xs) = True"
| "truthy (JObj fs) = True"

definition js_or :: "jsval \<Rightarrow> jsval \<Rightarrow> jsval" where
  "js_or a b = (if truthy a then a else b)"

text \<open>An optional string parameter (\<^verbatim>\<open>message?: string\<close>) as a value.\<close>

definition opt_str :: "string option \<Rightarrow> jsval" where
  "opt_str m = (case m of None \<Rightarrow> JUndefined | Some s \<Rightarrow> JStr s)"

datatype plan = Free | Classic | Pro

fun plan_name :: "plan \<Rightarrow> string" where
  "plan_name Free = ''Free''"
| "plan_name Classic = ''Classic''"
| "plan_name Pro = ''Pro''"

text \<open>
  \<open>Error m\<close> is \<^verbatim>\<open>new Error(m)\<close> thrown by the file itself; \<open>Rejected c\<close> is a rejection
  raised inside the SDK (the store or the identity provider).
\<close>

datatype error = Error string | Rejected string

section \<open>The document store\<close>

text \<open>
  A collection is the list of its documents with their ids, in the order in which the
  store returns them; ids are unique in a collection. \<^verbatim>\<open>admin_logs\<close> documents get
  store-assigned ids, which nothing in the file reads back, so the log is the list of its
  entries in insertion order.
\<close>

type_synonym collection = "(string \<times> doc) list"

record db =
  users :: collection
  licenses :: collection
  config :: collection
  admin_logs :: "doc list"

text \<open>\<^verbatim>\<open>ref.update(fields)\<close>: replaces the named top-level fields.\<close>

fun set_fields :: "doc \<Rightarrow> doc \<Rightarrow> doc" where
  "set_fields d [] = d"
| "set_fields d ((k, v) # fs) = set_fields (AList.update k v d) fs"

text \<open>
  \<^verbatim>\<open>ref.set(fields, {merge: true})\<close>: every leaf of \<open>fields\<close> is written at its path and
  everything else is kept. A nested non-empty object is merged into the object already
  stored under that name; any other value (also an array or an empty object) replaces
  what is stored.
\<close>

fun merge_fields :: "doc \<Rightarrow> doc \<Rightarrow> doc"
  and merge_val :: "jsval option \<Rightarrow> jsval \<Rightarrow> jsval" where
  "merge_fields d [] = d"
| "merge_fields d ((k, v) # fs) = merge_fields (AList.update k (merge_val (map_of d k) v) d) fs"
| "merge_val (Some (JObj old)) (JObj (f # fs)) = JObj (merge_fields old (f # fs))"
| "merge_val old v = v"

text \<open>\<^verbatim>\<open>update\<close> rejects when the document does not exist; \<^verbatim>\<open>set\<close> creates it.\<close>

definition coll_update :: "collection \<Rightarrow> string \<Rightarrow> doc \<Rightarrow> error + collection" where
  "coll_update c i fs =
     (case map_of c i of
        None \<Rightarrow> Inl (Rejected ''NOT_FOUND'')
      | Some d \<Rightarrow> Inr (AList.update i (set_fields d fs) c))"

definition coll_set :: "collection \<Rightarrow> string \<Rightarrow> doc \<Rightarrow> collection" where
  "coll_set c i fs = AList.update i fs c"

definition coll_set_merge :: "collection \<Rightarrow> string \<Rightarrow> doc \<Rightarrow> collection" where
  "coll_set_merge c i fs =
     AList.update i (merge_fields (case map_of c i of None \<Rightarrow> [] | Some d \<Rightarrow> d) fs) c"

section \<open>Module state and environment\<close>

text \<open>
  \<open>adminDb\<close> and \<open>adminAuth\<close> are the module's two handles, \<open>None\<close> for \<^verbatim>\<open>null\<close>. The
  identity provider is used through \<^verbatim>\<open>verifyIdToken\<close> only. What the file reads from its
  environment is given by three streams with a read position each: the system clock
  (\<^verbatim>\<open>Timestamp.now()\<close>, \<^verbatim>\<open>Date.now()\<close>, \<^verbatim>\<open>new Date()\<close>), the text of
  \<^verbatim>\<open>Math.random().toString(36)\<close>, and whether an append to \<^verbatim>\<open>admin_logs\<close> is rejected by
  the store (the failure \<^verbatim>\<open>logAdminAction\<close> catches). Reads and writes of the three entity
  collections behave as the store documents them.
\<close>

record world =
  adminDb :: "db option"
  adminAuth :: "(string \<Rightarrow> error + string) option"
  clock :: "nat \<Rightarrow> int"
  clock_reads :: nat
  random36 :: "nat \<Rightarrow> string"
  random_reads :: nat
  add_rejects :: "nat \<Rightarrow> bool"
  add_calls :: nat

definition read_clock :: "world \<Rightarrow> int \<times> world" where
  "read_clock w = (clock w (clock_reads w), w\<lparr>clock_reads := Suc (clock_reads w)\<rparr>)"

definition read_random36 :: "world \<Rightarrow> string \<times> world" where
  "read_random36 w = (random36 w (random_reads w), w\<lparr>random_reads := Suc (random_reads w)\<rparr>)"

text \<open>\<^verbatim>\<open>adminDb.collection("admin_logs").add(entry)\<close>.\<close>

definition add_admin_log :: "world \<Rightarrow> db \<Rightarrow> doc \<Rightarrow> (error + unit) \<times> world" where
  "add_admin_log w d entry =
     (let w' = w\<lparr>add_calls := Suc (add_calls w)\<rparr>
      in if add_rejects w (add_calls w) then (Inl (Rejected ''add''), w')
         else (Inr (), w'\<lparr>adminDb := Some (d\<lparr>admin_logs := admin_logs d @ [entry]\<rparr>)\<rparr>))"

section \<open>The service\<close>

text \<open>
  A command returns its outcome (the thrown error, or the returned value) together with
  the world it leaves behind, since \<^verbatim>\<open>verifyAdmin\<close> writes before it throws.
\<close>

text \<open>The object \<^verbatim>\<open>logAdminAction\<close> appends.\<close>

definition audit_entry :: "string \<Rightarrow> string \<Rightarrow> doc \<Rightarrow> int \<Rightarrow> doc" where
  "audit_entry adminUid action data now =
     [(''adminUid'', JStr adminUid),
      (''action'', JStr action),
      (''data'', JObj data),
      (''timestamp'', JTime now),
      (''ipAddress'', js_or (get_field data ''ipAddress'') (JStr ''unknown''))]"

definition logAdminAction :: "world \<Rightarrow> string \<Rightarrow> string \<Rightarrow> doc \<Rightarrow> (error + unit) \<times> world" where
  "logAdminAction w adminUid action data =
     (case adminDb w of
        None \<Rightarrow> (Inr (), w)
      | Some d \<Rightarrow>
          (case read_clock w of
             (now, w1) \<Rightarrow>
               (case add_admin_log w1 d (audit_entry adminUid action data now) of
                  (Inl e, w2) \<Rightarrow> (Inr (), w2)
                | (Inr u, w2) \<Rightarrow> (Inr (), w2))))"

text \<open>\<^verbatim>\<open>{ uid: doc.id, ...doc.data() }\<close>: a stored \<^verbatim>\<open>uid\<close> field wins over the id.\<close>

definition getUser :: "world \<Rightarrow> string \<Rightarrow> error + doc option" where
  "getUser w userId =
     (case adminDb w of
        None \<Rightarrow> Inl (Error ''Database not initialized'')
      | Some d \<Rightarrow>
          (case map_of (users d) userId of
             None \<Rightarrow> Inr None
           | Some u \<Rightarrow> Inr (Some (if map_of u ''uid'' = None then (''uid'', JStr userId) # u else u))))"

definition planLimits :: "(string \<times> int) list" where
  "planLimits = [(''Free'', 10), (''Classic'', 100), (''Pro'', 1000)]"

definition updateUserPlan :: "world \<Rightarrow> string \<Rightarrow> string \<Rightarrow> plan \<Rightarrow> (error + unit) \<times> world" where
  "updateUserPlan w adminUid userId p =
     (case adminDb w of
        None \<Rightarrow> (Inl (Error ''Database not initialized''), w)
      | Some d \<Rightarrow>
          (case getUser w userId of
             Inl e \<Rightarrow> (Inl e, w)
           | Inr None \<Rightarrow> (Inl (Error ''User not found''), w)
           | Inr (Some user) \<Rightarrow>
               (case coll_update (users d) userId
                       [(''plan'', JStr (plan_name p)),
                        (''messagesLimit'',
                           (case map_of planLimits (plan_name p) of
                              None \<Rightarrow> JUndefined | Some n \<Rightarrow> JNum n))] of
                  Inl e \<Rightarrow> (Inl e, w)
                | Inr us \<Rightarrow>
                    logAdminAction (w\<lparr>adminDb := Some (d\<lparr>users := us\<rparr>)\<rparr>) adminUid
                      ''UPDATE_USER_PLAN''
                      [(''targetUser'', JStr userId), (''newPlan'', JStr (plan_name p))])))"

definition banUser :: "world \<Rightarrow> string \<Rightarrow> string \<Rightarrow> string \<Rightarrow> (error + unit) \<times> world" where
  "banUser w adminUid userId reason =
     (case adminDb w of
        None \<Rightarrow> (Inl (Error ''Database not initialized''), w)
      | Some d \<Rightarrow>
          (case getUser w userId of
             Inl e \<Rightarrow> (Inl e, w)
           | Inr None \<Rightarrow> (Inl (Error ''User not found''), w)
           | Inr (Some user) \<Rightarrow>
               if truthy (get_field user ''isAdmin'') then (Inl (Error ''Cannot ban admin users''), w)
               else
                 (case read_clock w of
                    (now, w1) \<Rightarrow>
                      (case coll_update (users d) userId
                              [(''isBanned'', JBool True),
                               (''bannedAt'', JTime now),
                               (''bannedBy'', JStr adminUid),
                               (''banReason'', JStr reason)] of
                         Inl e \<Rightarrow> (Inl e, w1)
                       | Inr us \<Rightarrow>
                           logAdminAction (w1\<lparr>adminDb := Some (d\<lparr>users := us\<rparr>)\<rparr>) adminUid
                             ''BAN_USER''
                             [(''targetUser'', JStr userId), (''reason'', JStr reason)]))))"

text \<open>
  \<^verbatim>\<open>verifyAdmin\<close>: the guard is \<^verbatim>\<open>!userDoc.exists || !userDoc.data()?.isAdmin\<close>, one branch
  for a missing record and for a record that is not an admin.
\<close>

definition verifyAdmin :: "world \<Rightarrow> string \<Rightarrow> (error + string) \<times> world" where
  "verifyAdmin w idToken =
     (case adminAuth w of
        None \<Rightarrow> (Inl (Error ''Firebase Admin SDK not initialized''), w)
      | Some verifyIdToken \<Rightarrow>
          (case adminDb w of
             None \<Rightarrow> (Inl (Error ''Firebase Admin SDK not initialized''), w)
           | Some d \<Rightarrow>
               (case verifyIdToken idToken of
                  Inl e \<Rightarrow> (Inl e, w)
                | Inr uid \<Rightarrow>
                    (let userDoc = map_of (users d) uid
                     in if userDoc = None
                           \<or> \<not> truthy (case userDoc of None \<Rightarrow> JUndefined
                                        | Some u \<Rightarrow> get_field u ''isAdmin'')
                        then (case logAdminAction w uid ''UNAUTHORIZED_ADMIN_ACCESS''
                                     [(''reason'', JStr ''Not an admin'')] of
                                (Inl e, w') \<Rightarrow> (Inl e, w')
                              | (Inr u, w') \<Rightarrow> (Inl (Error ''Unauthorized: Not an admin''), w'))
                        else (Inr uid, w)))))"

subsection \<open>Licenses\<close>

record license_view =
  key :: string
  plan :: jsval
  valid :: bool
  usedBy :: jsval
  usedAt :: jsval
  createdAt :: jsval
  createdBy :: jsval
  validityDays :: jsval

definition license_of_doc :: "string \<times> doc \<Rightarrow> license_view" where
  "license_of_doc kd =
     \<lparr>key = fst kd,
      plan = js_or (get_field (snd kd) ''plan'') (JStr ''Free''),
      valid = (get_field (snd kd) ''valid'' \<noteq> JBool False),
      usedBy = js_or (get_field (snd kd) ''usedBy'') JNull,
      usedAt = get_field (snd kd) ''usedAt'',
      createdAt = get_field (snd kd) ''createdAt'',
      createdBy = get_field (snd kd) ''createdBy'',
      validityDays = get_field (snd kd) ''validityDays''\<rparr>"

definition getAllLicenses :: "world \<Rightarrow> nat \<Rightarrow> error + license_view list" where
  "getAllLicenses w limit =
     (case adminDb w of
        None \<Rightarrow> Inl (Error ''Database not initialized'')
      | Some d \<Rightarrow> Inr (map license_of_doc (take limit (licenses d))))"

text \<open>
  The key is \<^verbatim>\<open>`LIC-${Date.now()}-${Math.random().toString(36).substr(2, 9).toUpperCase()}`\<close>.
  \<open>show_int\<close> is the decimal text of a whole number (JavaScript's, below \<open>10^21\<close>);
  \<open>substr\<close> and \<open>toUpperCase\<close> are the string methods on ASCII text.
\<close>

function digits :: "nat \<Rightarrow> string" where
  "digits n =
     (if n < 10 then [''0123456789'' ! n]
      else digits (n div 10) @ [''0123456789'' ! (n mod 10)])"
  by pat_completeness auto
termination
  by (relation "measure id") auto

declare digits.simps [simp del]

definition show_int :: "int \<Rightarrow> string" where
  "show_int i = (if i < 0 then CHR ''-'' # digits (nat (- i)) else digits (nat i))"

definition substr :: "string \<Rightarrow> nat \<Rightarrow> nat \<Rightarrow> string" where
  "substr s start len = take len (drop start s)"

definition upper_char :: "char \<Rightarrow> char" where
  "upper_char c =
     (case map_of (zip ''abcdefghijklmnopqrstuvwxyz'' ''ABCDEFGHIJKLMNOPQRSTUVWXYZ'') c of
        None \<Rightarrow> c
      | Some u \<Rightarrow> u)"

definition toUpperCase :: "string \<Rightarrow> string" where
  "toUpperCase s = map upper_char s"

definition createLicense :: "world \<Rightarrow> string \<Rightarrow> plan \<Rightarrow> int \<Rightarrow> (error + string) \<times> world" where
  "createLicense w adminUid p days =
     (case adminDb w of
        None \<Rightarrow> (Inl (Error ''Database not initialized''), w)
      | Some d \<Rightarrow>
          (case read_clock w of
             (ms, w1) \<Rightarrow>
               (case read_random36 w1 of
                  (r, w2) \<Rightarrow>
                    (let licenseKey = ''LIC-'' @ show_int ms @ ''-'' @ toUpperCase (substr r 2 9)
                     in case read_clock w2 of
                          (now, w3) \<Rightarrow>
                            (case logAdminAction
                                    (w3\<lparr>adminDb := Some (d\<lparr>licenses :=
                                       coll_set (licenses d) licenseKey
                                         [(''plan'', JStr (plan_name p)),
                                          (''valid'', JBool True),
                                          (''createdAt'', JTime now),
                                          (''createdBy'', JStr adminUid),
                                          (''validityDays'', JNum days)]\<rparr>)\<rparr>)
                                    adminUid ''CREATE_LICENSE''
                                    [(''licenseKey'', JStr licenseKey),
                                     (''plan'', JStr (plan_name p)),
                                     (''validityDays'', JNum days)] of
                               (Inl e, w4) \<Rightarrow> (Inl e, w4)
                             | (Inr u, w4) \<Rightarrow> (Inr licenseKey, w4))))))"

subsection \<open>Statistics\<close>

text \<open>
  The two \<^verbatim>\<open>forEach\<close> loops of \<^verbatim>\<open>getSystemStats\<close>, with their counters. The sum
  \<^verbatim>\<open>totalMessages\<close> is computed by the source and never returned; it is left out.
\<close>

fun count_users :: "collection \<Rightarrow> nat \<times> nat \<Rightarrow> nat \<times> nat" where
  "count_users [] acc = acc"
| "count_users (kd # ds) (totalAdmins, bannedUsers) =
     count_users ds
       (if truthy (get_field (snd kd) ''isAdmin'') then Suc totalAdmins else totalAdmins,
        if truthy (get_field (snd kd) ''isBanned'') then Suc bannedUsers else bannedUsers)"

fun count_active :: "collection \<Rightarrow> nat \<Rightarrow> nat" where
  "count_active [] n = n"
| "count_active (kd # ds) n =
     count_active ds (if get_field (snd kd) ''valid'' \<noteq> JBool False then Suc n else n)"

record system_stats =
  totalUsers :: nat
  totalAdmins :: nat
  bannedUsers :: nat
  activeLicenses :: nat
  systemHealth :: string
  uptime :: real
  avgLatency :: int
  storage_used :: real
  storage_total :: int

definition getSystemStats :: "world \<Rightarrow> error + system_stats" where
  "getSystemStats w =
     (case adminDb w of
        None \<Rightarrow> Inl (Error ''Database not initialized'')
      | Some d \<Rightarrow>
          Inr \<lparr>totalUsers = length (users d),
               totalAdmins = fst (count_users (users d) (0, 0)),
               bannedUsers = snd (count_users (users d) (0, 0)),
               activeLicenses = count_active (licenses d) 0,
               systemHealth = ''Optimal'',
               uptime = 99.95,
               avgLatency = 45,
               storage_used = 2.5,
               storage_total = 100\<rparr>)"

subsection \<open>Bulk deletes\<close>

text \<open>A write batch of deletes, committed: the documents are removed by reference.\<close>

fun batch_delete :: "collection \<Rightarrow> string list \<Rightarrow> collection" where
  "batch_delete c [] = c"
| "batch_delete c (k # ks) = batch_delete (AList.delete k c) ks"

text \<open>The query \<^verbatim>\<open>where("valid", "==", false)\<close> matches the boolean \<^verbatim>\<open>false\<close> only.\<close>

definition purgeInvalidLicenses :: "world \<Rightarrow> string \<Rightarrow> (error + nat) \<times> world" where
  "purgeInvalidLicenses w adminUid =
     (case adminDb w of
        None \<Rightarrow> (Inl (Error ''Database not initialized''), w)
      | Some d \<Rightarrow>
          (let snapshot = filter (\<lambda>kd. map_of (snd kd) ''valid'' = Some (JBool False)) (licenses d)
           in case logAdminAction
                     (w\<lparr>adminDb := Some (d\<lparr>licenses := batch_delete (licenses d) (map fst snapshot)\<rparr>)\<rparr>)
                     adminUid ''PURGE_LICENSES''
                     [(''count'', JNum (int (length snapshot)))] of
                (Inl e, w') \<Rightarrow> (Inl e, w')
              | (Inr u, w') \<Rightarrow> (Inr (length snapshot), w')))"

text \<open>
  The query \<^verbatim>\<open>where("timestamp", "<", cutoff)\<close> matches the entries whose \<^verbatim>\<open>timestamp\<close> is a
  timestamp below the cutoff. \<^verbatim>\<open>daysOld\<close> is a whole number of days;
  \<^verbatim>\<open>setDate(getDate() - daysOld)\<close> moves the date back by that many calendar days, which are
  days of 86400000 ms (a process time zone without clock changes, such as UTC).
\<close>

definition older_than :: "int \<Rightarrow> doc \<Rightarrow> bool" where
  "older_than cutoff e = (case map_of e ''timestamp'' of Some (JTime t) \<Rightarrow> t < cutoff | _ \<Rightarrow> False)"

definition clearOldLogs :: "world \<Rightarrow> string \<Rightarrow> int \<Rightarrow> (error + nat) \<times> world" where
  "clearOldLogs w adminUid daysOld =
     (case adminDb w of
        None \<Rightarrow> (Inl (Error ''Database not initialized''), w)
      | Some d \<Rightarrow>
          (case read_clock w of
             (today, w1) \<Rightarrow>
               (let cutoffDate = today - daysOld * 86400000;
                    snapshot = filter (older_than cutoffDate) (admin_logs d)
                in case logAdminAction
                          (w1\<lparr>adminDb := Some (d\<lparr>admin_logs :=
                             filter (\<lambda>e. \<not> older_than cutoffDate e) (admin_logs d)\<rparr>)\<rparr>)
                          adminUid ''CLEAR_OLD_LOGS''
                          [(''daysOld'', JNum daysOld), (''count'', JNum (int (length snapshot)))] of
                     (Inl e, w') \<Rightarrow> (Inl e, w')
                   | (Inr u, w') \<Rightarrow> (Inr (length snapshot), w'))))"

subsection \<open>Maintenance flags\<close>

text \<open>\<^verbatim>\<open>adminDb.collection("config").doc("maintenance").set(fields, { merge: true })\<close>.\<close>

definition set_maintenance :: "db \<Rightarrow> doc \<Rightarrow> db" where
  "set_maintenance d fs = d\<lparr>config := coll_set_merge (config d) ''maintenance'' fs\<rparr>"

definition enableGlobalMaintenance :: "world \<Rightarrow> string \<Rightarrow> string option \<Rightarrow> (error + unit) \<times> world" where
  "enableGlobalMaintenance w adminUid message =
     (case adminDb w of
        None \<Rightarrow> (Inl (Error ''Database not initialized''), w)
      | Some d \<Rightarrow>
          (case read_clock w of
             (now, w1) \<Rightarrow>
               logAdminAction
                 (w1\<lparr>adminDb := Some (set_maintenance d
                    [(''isGlobalMaintenance'', JBool True),
                     (''message'', js_or (opt_str message) (JStr ''System maintenance in progress'')),
                     (''enabledAt'', JTime now),
                     (''enabledBy'', JStr adminUid)])\<rparr>)
                 adminUid ''ENABLE_GLOBAL_MAINTENANCE'' [(''message'', opt_str message)]))"

definition disableGlobalMaintenance :: "world \<Rightarrow> string \<Rightarrow> (error + unit) \<times> world" where
  "disableGlobalMaintenance w adminUid =
     (case adminDb w of
        None \<Rightarrow> (Inl (Error ''Database not initialized''), w)
      | Some d \<Rightarrow>
          logAdminAction
            (w\<lparr>adminDb := Some (set_maintenance d [(''isGlobalMaintenance'', JBool False)])\<rparr>)
            adminUid ''DISABLE_GLOBAL_MAINTENANCE'' [])"

definition enablePartialMaintenance ::
  "world \<Rightarrow> string \<Rightarrow> string list \<Rightarrow> string option \<Rightarrow> (error + unit) \<times> world" where
  "enablePartialMaintenance w adminUid services message =
     (case adminDb w of
        None \<Rightarrow> (Inl (Error ''Database not initialized''), w)
      | Some d \<Rightarrow>
          (case read_clock w of
             (now, w1) \<Rightarrow>
               logAdminAction
                 (w1\<lparr>adminDb := Some (set_maintenance d
                    [(''partialServices'', JList (map JStr services)),
                     (''message'', js_or (opt_str message) (JStr ''Some services are under maintenance'')),
                     (''enabledAt'', JTime now),
                     (''enabledBy'', JStr adminUid)])\<rparr>)
                 adminUid ''ENABLE_PARTIAL_MAINTENANCE''
                 [(''services'', JList (map JStr services)), (''message'', opt_str message)]))"

definition disablePartialMaintenance :: "world \<Rightarrow> string \<Rightarrow> (error + unit) \<times> world" where
  "disablePartialMaintenance w adminUid =
     (case adminDb w of
        None \<Rightarrow> (Inl (Error ''Database not initialized''), w)
      | Some d \<Rightarrow>
          logAdminAction
            (w\<lparr>adminDb := Some (set_maintenance d [(''partialServices'', JList [])])\<rparr>)
            adminUid ''DISABLE_PARTIAL_MAINTENANCE'' [])"

definition enableIAMaintenance :: "world \<Rightarrow> string \<Rightarrow> string option \<Rightarrow> (error + unit) \<times> world" where
  "enableIAMaintenance w adminUid message =
     (case adminDb w of
        None \<Rightarrow> (Inl (Error ''Database not initialized''), w)
      | Some d \<Rightarrow>
          (case read_clock w of
             (now, w1) \<Rightarrow>
               logAdminAction
                 (w1\<lparr>adminDb := Some (set_maintenance d
                    [(''iaService'', JObj
                        [(''enabled'', JBool False),
                         (''message'', js_or (opt_str message) (JStr ''AI service is under maintenance'')),
                         (''enabledAt'', JTime now),
                         (''enabledBy'', JStr adminUid)])])\<rparr>)
                 adminUid ''ENABLE_IA_MAINTENANCE'' [(''message'', opt_str message)]))"

definition disableIAMaintenance :: "world \<Rightarrow> string \<Rightarrow> (error + unit) \<times> world" where
  "disableIAMaintenance w adminUid =
     (case adminDb w of
        None \<Rightarrow> (Inl (Error ''Database not initialized''), w)
      | Some d \<Rightarrow>
          logAdminAction
            (w\<lparr>adminDb := Some (set_maintenance d
               [(''iaService'', JObj [(''enabled'', JBool True)])])\<rparr>)
            adminUid ''DISABLE_IA_MAINTENANCE'' [])"

definition enableLicenseMaintenance :: "world \<Rightarrow> string \<Rightarrow> string option \<Rightarrow> (error + unit) \<times> world" where
  "enableLicenseMaintenance w adminUid message =
     (case adminDb w of
        None \<Rightarrow> (Inl (Error ''Database not initialized''), w)
      | Some d \<Rightarrow>
          (case read_clock w of
             (now, w1) \<Rightarrow>
               logAdminAction
                 (w1\<lparr>adminDb := Some (set_maintenance d
                    [(''licenseService'', JObj
                        [(''enabled'', JBool False),
                         (''message'', js_or (opt_str message) (JStr ''License service is under maintenance'')),
                         (''enabledAt'', JTime now),
                         (''enabledBy'', JStr adminUid)])])\<rparr>)
                 adminUid ''ENABLE_LICENSE_MAINTENANCE'' [(''message'', opt_str message)]))"

definition disableLicenseMaintenance :: "world \<Rightarrow> string \<Rightarrow> (error + unit) \<times> world" where
  "disableLicenseMaintenance w adminUid =
     (case adminDb w of
        None \<Rightarrow> (Inl (Error ''Database not initialized''), w)
      | Some d \<Rightarrow>
          logAdminAction
            (w\<lparr>adminDb := Some (set_maintenance d
               [(''licenseService'', JObj [(''enabled'', JBool True)])])\<rparr>)
            adminUid ''DISABLE_LICENSE_MAINTENANCE'' [])"

text \<open>The nested read \<^verbatim>\<open>doc.data().f?.g\<close> on a stored document.\<close>

definition nested_field :: "doc \<Rightarrow> string \<Rightarrow> string \<Rightarrow> jsval" where
  "nested_field d f g = (case map_of d f of Some (JObj fs) \<Rightarrow> get_field fs g | _ \<Rightarrow> JUndefined)"

text \<open>The \<^verbatim>\<open>maintenance\<close> document of a world; no fields when there is none.\<close>

definition maintenance_doc :: "world \<Rightarrow> doc" where
  "maintenance_doc w =
     (case adminDb w of
        None \<Rightarrow> []
      | Some d \<Rightarrow> (case map_of (config d) ''maintenance'' of None \<Rightarrow> [] | Some m \<Rightarrow> m))"

section \<open>Observations and example worlds\<close>

text \<open>
  What a command leaves in the three entity collections, and in the audit log; \<open>None\<close>
  and the empty log when there is no store.
\<close>

definition entities :: "world \<Rightarrow> (collection \<times> collection \<times> collection) option" where
  "entities w = map_option (\<lambda>d. (users d, licenses d, config d)) (adminDb w)"

definition logs_of :: "world \<Rightarrow> doc list" where
  "logs_of w = (case adminDb w of None \<Rightarrow> [] | Some d \<Rightarrow> admin_logs d)"

text \<open>
  A small store: an admin and a plain user, three licenses (one without a \<^verbatim>\<open>valid\<close>
  field, one invalid, one valid), a maintenance document, and three log entries around
  the instant thirty days before \<open>1700000000000\<close>, which is \<open>1697408000000\<close>.
\<close>

definition db0 :: db where
  "db0 =
     \<lparr>users =
        [(''alice'', [(''email'', JStr ''alice@example.com''), (''isAdmin'', JBool True)]),
         (''bob'', [(''email'', JStr ''bob@example.com''), (''isAdmin'', JBool False)])],
      licenses =
        [(''LIC-1-AAAAAAAAA'', [(''plan'', JStr ''Pro'')]),
         (''LIC-2-BBBBBBBBB'', [(''plan'', JStr ''Pro''), (''valid'', JBool False)]),
         (''LIC-3-CCCCCCCCC'', [(''plan'', JStr ''Free''), (''valid'', JBool True)])],
      config =
        [(''maintenance'',
          [(''isGlobalMaintenance'', JBool True),
           (''message'', JStr ''back soon''),
           (''iaService'', JObj [(''enabled'', JBool True), (''message'', JStr ''old'')])])],
      admin_logs =
        [[(''action'', JStr ''BAN_USER''), (''timestamp'', JTime 1697407999999)],
         [(''action'', JStr ''UNBAN_USER''), (''timestamp'', JTime 1697408000000)],
         [(''action'', JStr ''BAN_USER''), (''timestamp'', JTime 1699999999999)]]\<rparr>"

definition auth0 :: "string \<Rightarrow> error + string" where
  "auth0 t =
     (if t = ''tok-alice'' then Inr ''alice''
      else if t = ''tok-bob'' then Inr ''bob''
      else if t = ''tok-carol'' then Inr ''carol''
      else Inl (Rejected ''auth/argument-error''))"

definition w0 :: world where
  "w0 =
     \<lparr>adminDb = Some db0, adminAuth = Some auth0,
      clock = (\<lambda>n. 1700000000000 + int n), clock_reads = 0,
      random36 = (\<lambda>n. ''0.4fzyo82mvyr''), random_reads = 0,
      add_rejects = (\<lambda>n. False), add_calls = 0\<rparr>"

text \<open>The same world with a store that rejects every append to the audit log.\<close>

definition w_rejecting :: world where
  "w_rejecting = w0\<lparr>add_rejects := (\<lambda>n. True)\<rparr>"







section \<open>The audit logger\<close>

lemma logAdminAction_None:
  "adminDb w = None \<Longrightarrow> logAdminAction w a act data = (Inr (), w)"
  by (simp add: logAdminAction_def)

lemma logAdminAction_Some:
  "adminDb w = Some d \<Longrightarrow>
   logAdminAction w a act data =
     (Inr (),
      if add_rejects w (add_calls w)
      then w\<lparr>clock_reads := Suc (clock_reads w), add_calls := Suc (add_calls w)\<rparr>
      else w\<lparr>clock_reads := Suc (clock_reads w), add_calls := Suc (add_calls w),
             adminDb := Some (d\<lparr>admin_logs :=
               admin_logs d @ [audit_entry a act data (clock w (clock_reads w))]\<rparr>)\<rparr>)"
  by (simp add: logAdminAction_def read_clock_def add_admin_log_def Let_def)

lemma logAdminAction_fst: "fst (logAdminAction w a act data) = Inr ()"
  by (cases "adminDb w") (simp_all add: logAdminAction_None logAdminAction_Some)

lemma logAdminAction_entities: "entities (snd (logAdminAction w a act data)) = entities w"
  by (cases "adminDb w") (simp_all add: logAdminAction_None logAdminAction_Some entities_def)

lemma logAdminAction_logs:
  "logs_of (snd (logAdminAction w a act data)) =
     logs_of w @ (if adminDb w = None \<or> add_rejects w (add_calls w) then []
                  else [audit_entry a act data (clock w (clock_reads w))])"
  by (cases "adminDb w") (simp_all add: logAdminAction_None logAdminAction_Some logs_of_def)

lemma logAdminAction_case:
  "(case logAdminAction w a act data of (Inl e, w') \<Rightarrow> f e w' | (Inr u, w') \<Rightarrow> g u w')
     = g () (snd (logAdminAction w a act data))"
  using logAdminAction_fst [of w a act data]
  by (cases "logAdminAction w a act data") (auto split: sum.splits)

lemma maintenance_doc_log:
  "maintenance_doc (snd (logAdminAction w a act data)) = maintenance_doc w"
  using logAdminAction_entities [of w a act data]
  by (cases "adminDb w"; cases "adminDb (snd (logAdminAction w a act data))")
     (auto simp: entities_def maintenance_doc_def)

lemma adminDb_log_None:
  "adminDb (snd (logAdminAction w a act data)) = None \<longleftrightarrow> adminDb w = None"
  by (cases "adminDb w") (simp_all add: logAdminAction_None logAdminAction_Some)

lemma logAdminAction_db:
  "adminDb w = Some d \<Longrightarrow>
   \<exists>d'. adminDb (snd (logAdminAction w a act data)) = Some d' \<and> users d' = users d
        \<and> licenses d' = licenses d \<and> config d' = config d"
  by (simp add: logAdminAction_Some)

section \<open>User commands\<close>

text \<open>
  C5. For an existing user and each plan, \<^verbatim>\<open>updateUserPlan\<close> returns normally and leaves
  the user's \<^verbatim>\<open>plan\<close> at that plan and \<^verbatim>\<open>messagesLimit\<close> at 10 for Free, 100 for Classic
  and 1000 for Pro.
\<close>

theorem updateUserPlan_sets_limit:
  assumes "adminDb w = Some d" and "map_of (users d) userId = Some u"
  shows "\<exists>w' d' u'. updateUserPlan w adminUid userId p = (Inr (), w') \<and> adminDb w' = Some d'
     \<and> map_of (users d') userId = Some u'
     \<and> map_of u' ''plan'' = Some (JStr (plan_name p))
     \<and> map_of u' ''messagesLimit'' =
         Some (JNum (case p of Free \<Rightarrow> 10 | Classic \<Rightarrow> 100 | Pro \<Rightarrow> 1000))"
  using assms
  by (cases p)
     (simp_all add: updateUserPlan_def getUser_def coll_update_def logAdminAction_Some
        planLimits_def AList.update_conv')

theorem updateUserPlan_sets_limit_witness:
  "\<exists>w' d' u'. updateUserPlan w0 ''alice'' ''bob'' Classic = (Inr (), w') \<and> adminDb w' = Some d'
     \<and> map_of (users d') ''bob'' = Some u'
     \<and> map_of u' ''plan'' = Some (JStr ''Classic'')
     \<and> map_of u' ''messagesLimit'' = Some (JNum 100)"
  using updateUserPlan_sets_limit
          [of w0 db0 "''bob''" "[(''email'', JStr ''bob@example.com''), (''isAdmin'', JBool False)]"
              "''alice''" Classic]
  by (simp add: w0_def db0_def)

text \<open>
  C1. On a user record whose \<^verbatim>\<open>isAdmin\<close> is true (or any other truthy value), \<^verbatim>\<open>banUser\<close>
  throws \<^verbatim>\<open>Cannot ban admin users\<close> and leaves the world, so the user document, as it
  was. On any other existing user it returns normally, and the user document then has
  \<^verbatim>\<open>isBanned\<close> true, \<^verbatim>\<open>bannedAt\<close> the timestamp read from the clock, \<^verbatim>\<open>bannedBy\<close> the acting
  admin and \<^verbatim>\<open>banReason\<close> the given reason.
\<close>

theorem banUser_admin_guard:
  assumes "adminDb w = Some d" and "map_of (users d) userId = Some u"
  shows "(truthy (get_field u ''isAdmin'') \<longrightarrow>
            banUser w adminUid userId reason = (Inl (Error ''Cannot ban admin users''), w))
       \<and> (\<not> truthy (get_field u ''isAdmin'') \<longrightarrow>
            (\<exists>w' d' u'. banUser w adminUid userId reason = (Inr (), w') \<and> adminDb w' = Some d'
               \<and> map_of (users d') userId = Some u'
               \<and> map_of u' ''isBanned'' = Some (JBool True)
               \<and> map_of u' ''bannedAt'' = Some (JTime (clock w (clock_reads w)))
               \<and> map_of u' ''bannedBy'' = Some (JStr adminUid)
               \<and> map_of u' ''banReason'' = Some (JStr reason)))"
  using assms
  by (simp add: banUser_def getUser_def get_field_def coll_update_def read_clock_def
        logAdminAction_Some AList.update_conv')

theorem banUser_admin_guard_witness:
  "banUser w0 ''alice'' ''alice'' ''spam'' = (Inl (Error ''Cannot ban admin users''), w0)
   \<and> (\<exists>w' d' u'. banUser w0 ''alice'' ''bob'' ''spam'' = (Inr (), w') \<and> adminDb w' = Some d'
         \<and> map_of (users d') ''bob'' = Some u'
         \<and> map_of u' ''isBanned'' = Some (JBool True)
         \<and> map_of u' ''bannedAt'' = Some (JTime 1700000000000)
         \<and> map_of u' ''bannedBy'' = Some (JStr ''alice'')
         \<and> map_of u' ''banReason'' = Some (JStr ''spam''))"
  using banUser_admin_guard
          [of w0 db0 "''alice''"
              "[(''email'', JStr ''alice@example.com''), (''isAdmin'', JBool True)]"
              "''alice''" "''spam''"]
        banUser_admin_guard
          [of w0 db0 "''bob''"
              "[(''email'', JStr ''bob@example.com''), (''isAdmin'', JBool False)]"
              "''alice''" "''spam''"]
  by (simp add: w0_def db0_def get_field_def)

section \<open>The authorization guard\<close>

text \<open>
  Both denials of \<^verbatim>\<open>verifyAdmin\<close> are one branch: the call to \<^verbatim>\<open>logAdminAction\<close> and
  then the throw of \<^verbatim>\<open>Unauthorized: Not an admin\<close>.
\<close>

lemma verifyAdmin_denied:
  assumes "adminAuth w = Some v" and "adminDb w = Some d" and "v idToken = Inr uid"
    and "map_of (users d) uid = None
           \<or> (\<exists>u. map_of (users d) uid = Some u \<and> \<not> truthy (get_field u ''isAdmin''))"
  shows "verifyAdmin w idToken =
           (Inl (Error ''Unauthorized: Not an admin''),
            snd (logAdminAction w uid ''UNAUTHORIZED_ADMIN_ACCESS'' [(''reason'', JStr ''Not an admin'')]))"
  using assms
  by (auto simp: verifyAdmin_def Let_def logAdminAction_case)

text \<open>
  C2, as the code has it. With a valid credential whose subject's record exists and is not
  an admin, \<^verbatim>\<open>verifyAdmin\<close> throws \<^verbatim>\<open>Unauthorized: Not an admin\<close>, leaves users, licenses
  and config as they were, and has attempted one audit write before throwing: when the
  store accepts the append, the log has grown by exactly the one
  \<^verbatim>\<open>UNAUTHORIZED_ADMIN_ACCESS\<close> entry for that subject; when the store rejects it, the log
  has not grown.
\<close>

theorem verifyAdmin_non_admin:
  assumes "adminAuth w = Some v" and "adminDb w = Some d" and "v idToken = Inr uid"
    and "map_of (users d) uid = Some u" and "\<not> truthy (get_field u ''isAdmin'')"
  shows "fst (verifyAdmin w idToken) = Inl (Error ''Unauthorized: Not an admin'')
       \<and> entities (snd (verifyAdmin w idToken)) = entities w
       \<and> logs_of (snd (verifyAdmin w idToken)) =
           logs_of w @ (if add_rejects w (add_calls w) then []
                        else [audit_entry uid ''UNAUTHORIZED_ADMIN_ACCESS''
                                [(''reason'', JStr ''Not an admin'')] (clock w (clock_reads w))])"
  using assms
  by (simp add: verifyAdmin_denied [of w v d idToken uid] logAdminAction_entities logAdminAction_logs)

theorem verifyAdmin_non_admin_witness:
  "fst (verifyAdmin w0 ''tok-bob'') = Inl (Error ''Unauthorized: Not an admin'')
   \<and> entities (snd (verifyAdmin w0 ''tok-bob'')) = entities w0
   \<and> logs_of (snd (verifyAdmin w0 ''tok-bob'')) =
        logs_of w0 @ [audit_entry ''bob'' ''UNAUTHORIZED_ADMIN_ACCESS''
                        [(''reason'', JStr ''Not an admin'')] 1700000000000]"
  using verifyAdmin_non_admin
          [of w0 auth0 db0 "''tok-bob''" "''bob''"
              "[(''email'', JStr ''bob@example.com''), (''isAdmin'', JBool False)]"]
  by (simp add: w0_def db0_def auth0_def get_field_def)

text \<open>
  The claim as stated (exactly one entry is written on every such call) fails when the
  append is rejected: the same error is returned and no entry has been written.
\<close>

theorem verifyAdmin_audit_counterexample:
  "adminAuth w_rejecting = Some auth0 \<and> auth0 ''tok-bob'' = Inr ''bob''
   \<and> adminDb w_rejecting = Some db0
   \<and> map_of (users db0) ''bob'' = Some [(''email'', JStr ''bob@example.com''), (''isAdmin'', JBool False)]
   \<and> fst (verifyAdmin w_rejecting ''tok-bob'') = Inl (Error ''Unauthorized: Not an admin'')
   \<and> logs_of (snd (verifyAdmin w_rejecting ''tok-bob'')) = logs_of w_rejecting"
  by (simp add: verifyAdmin_def logAdminAction_def read_clock_def add_admin_log_def Let_def
        w_rejecting_def w0_def db0_def auth0_def get_field_def logs_of_def)

text \<open>
  C3, as the code has it. With a valid credential whose subject has no user record,
  \<^verbatim>\<open>verifyAdmin\<close> throws \<^verbatim>\<open>Unauthorized: Not an admin\<close>, the very error it throws for an
  existing user who is not an admin, after the same one attempted audit write.
\<close>

theorem verifyAdmin_unknown_user:
  assumes "adminAuth w = Some v" and "adminDb w = Some d" and "v idToken = Inr uid"
    and "map_of (users d) uid = None"
    and "adminAuth w2 = Some v2" and "adminDb w2 = Some d2" and "v2 idToken2 = Inr uid2"
    and "map_of (users d2) uid2 = Some u2" and "\<not> truthy (get_field u2 ''isAdmin'')"
  shows "fst (verifyAdmin w idToken) = Inl (Error ''Unauthorized: Not an admin'')
       \<and> fst (verifyAdmin w idToken) = fst (verifyAdmin w2 idToken2)
       \<and> entities (snd (verifyAdmin w idToken)) = entities w
       \<and> logs_of (snd (verifyAdmin w idToken)) =
           logs_of w @ (if add_rejects w (add_calls w) then []
                        else [audit_entry uid ''UNAUTHORIZED_ADMIN_ACCESS''
                                [(''reason'', JStr ''Not an admin'')] (clock w (clock_reads w))])"
  using assms
  by (simp add: verifyAdmin_denied [of w v d idToken uid] verifyAdmin_denied [of w2 v2 d2 idToken2 uid2]
        logAdminAction_entities logAdminAction_logs)

theorem verifyAdmin_unknown_user_witness:
  "fst (verifyAdmin w0 ''tok-carol'') = Inl (Error ''Unauthorized: Not an admin'')
   \<and> fst (verifyAdmin w0 ''tok-carol'') = fst (verifyAdmin w0 ''tok-bob'')
   \<and> entities (snd (verifyAdmin w0 ''tok-carol'')) = entities w0
   \<and> logs_of (snd (verifyAdmin w0 ''tok-carol'')) =
        logs_of w0 @ [audit_entry ''carol'' ''UNAUTHORIZED_ADMIN_ACCESS''
                        [(''reason'', JStr ''Not an admin'')] 1700000000000]"
proof -
  have a: "adminAuth w0 = Some auth0" and d: "adminDb w0 = Some db0"
    by (simp_all add: w0_def)
  have c: "auth0 ''tok-carol'' = Inr ''carol''" and b: "auth0 ''tok-bob'' = Inr ''bob''"
    by (simp_all add: auth0_def)
  have nc: "map_of (users db0) ''carol'' = None"
    and ub: "map_of (users db0) ''bob'' =
               Some [(''email'', JStr ''bob@example.com''), (''isAdmin'', JBool False)]"
    by (simp_all add: db0_def)
  have nb: "\<not> truthy (get_field [(''email'', JStr ''bob@example.com''), (''isAdmin'', JBool False)] ''isAdmin'')"
    by (simp add: get_field_def)
  have env: "\<not> add_rejects w0 (add_calls w0)" "clock w0 (clock_reads w0) = 1700000000000"
    by (simp_all add: w0_def)
  show ?thesis
    using verifyAdmin_unknown_user [OF a d c nc a d b ub nb] env by auto
qed

text \<open>
  The claim as stated (a \<^verbatim>\<open>User not found\<close> error, distinguishable from the
  not-authorized one) fails for the subject \<^verbatim>\<open>carol\<close>, who has no record: the error is the
  one returned for \<^verbatim>\<open>bob\<close>, who has a record and is not an admin.
\<close>

theorem verifyAdmin_unknown_user_counterexample:
  "adminAuth w0 = Some auth0 \<and> auth0 ''tok-carol'' = Inr ''carol'' \<and> adminDb w0 = Some db0
   \<and> map_of (users db0) ''carol'' = None
   \<and> fst (verifyAdmin w0 ''tok-carol'') \<noteq> Inl (Error ''User not found'')
   \<and> fst (verifyAdmin w0 ''tok-carol'') = Inl (Error ''Unauthorized: Not an admin'')
   \<and> fst (verifyAdmin w0 ''tok-bob'') = Inl (Error ''Unauthorized: Not an admin'')"
  by (simp add: verifyAdmin_def logAdminAction_def read_clock_def add_admin_log_def Let_def
        w0_def db0_def auth0_def get_field_def)

section \<open>Maintenance flags\<close>

lemma js_or_opt_str:
  "js_or (opt_str m) (JStr s) = JStr (case m of None \<Rightarrow> s | Some t \<Rightarrow> if t = [] then s else t)"
  by (simp add: js_or_def opt_str_def split: option.splits)

lemma merge_fields_other:
  "k \<notin> fst ` set fs \<Longrightarrow> map_of (merge_fields d fs) k = map_of d k"
  by (induction fs arbitrary: d) (auto simp: AList.update_conv')

lemma maintenance_doc_set:
  "maintenance_doc (w\<lparr>adminDb := Some (set_maintenance d fs)\<rparr>) =
     merge_fields (case map_of (config d) ''maintenance'' of None \<Rightarrow> [] | Some m \<Rightarrow> m) fs"
  by (simp add: maintenance_doc_def set_maintenance_def coll_set_merge_def AList.update_conv')

lemma merge_val_enabled:
  assumes "''enabled'' \<notin> fst ` set fs"
  shows "\<exists>fs'. merge_val old (JObj ((''enabled'', JBool b) # fs)) = JObj fs'
           \<and> map_of fs' ''enabled'' = Some (JBool b)"
proof -
  have "map_of (merge_fields d ((''enabled'', JBool b) # fs)) ''enabled'' = Some (JBool b)" for d
    using assms by (simp add: merge_fields_other AList.update_conv')
  then show ?thesis
    using assms by (cases old; cases "the old") auto
qed

lemma nested_flag_merged:
  assumes "''enabled'' \<notin> fst ` set fs"
  shows "nested_field (AList.update f (merge_val (map_of m f) (JObj ((''enabled'', JBool b) # fs))) m)
           f ''enabled'' = JBool b"
  using merge_val_enabled [OF assms, of "map_of m f" b]
  by (auto simp: nested_field_def get_field_def AList.update_conv')

text \<open>
  C6. With the store initialized, \<^verbatim>\<open>enableIAMaintenance\<close> returns normally and leaves
  \<^verbatim>\<open>iaService.enabled\<close> of the maintenance document at \<^verbatim>\<open>false\<close>, \<^verbatim>\<open>disableIAMaintenance\<close>
  leaves it at \<^verbatim>\<open>true\<close>; \<^verbatim>\<open>enableLicenseMaintenance\<close> and \<^verbatim>\<open>disableLicenseMaintenance\<close> do
  the same to \<^verbatim>\<open>licenseService.enabled\<close>.
\<close>

theorem subservice_maintenance_polarity:
  assumes "adminDb w = Some d"
  shows "fst (enableIAMaintenance w adminUid message) = Inr ()
       \<and> nested_field (maintenance_doc (snd (enableIAMaintenance w adminUid message)))
            ''iaService'' ''enabled'' = JBool False
       \<and> fst (disableIAMaintenance w adminUid) = Inr ()
       \<and> nested_field (maintenance_doc (snd (disableIAMaintenance w adminUid)))
            ''iaService'' ''enabled'' = JBool True
       \<and> fst (enableLicenseMaintenance w adminUid message) = Inr ()
       \<and> nested_field (maintenance_doc (snd (enableLicenseMaintenance w adminUid message)))
            ''licenseService'' ''enabled'' = JBool False
       \<and> fst (disableLicenseMaintenance w adminUid) = Inr ()
       \<and> nested_field (maintenance_doc (snd (disableLicenseMaintenance w adminUid)))
            ''licenseService'' ''enabled'' = JBool True"
  using assms
  by (simp add: enableIAMaintenance_def disableIAMaintenance_def enableLicenseMaintenance_def
        disableLicenseMaintenance_def read_clock_def logAdminAction_fst maintenance_doc_log
        maintenance_doc_set nested_flag_merged)

theorem subservice_maintenance_polarity_witness:
  "nested_field (maintenance_doc w0) ''iaService'' ''enabled'' = JBool True
   \<and> nested_field (maintenance_doc (snd (enableIAMaintenance w0 ''alice'' None)))
        ''iaService'' ''enabled'' = JBool False
   \<and> nested_field (maintenance_doc (snd (disableIAMaintenance (snd (enableIAMaintenance w0 ''alice'' None)) ''alice'')))
        ''iaService'' ''enabled'' = JBool True
   \<and> nested_field (maintenance_doc (snd (enableLicenseMaintenance w0 ''alice'' (Some ''later''))))
        ''licenseService'' ''enabled'' = JBool False
   \<and> nested_field (maintenance_doc (snd (disableLicenseMaintenance w0 ''alice'')))
        ''licenseService'' ''enabled'' = JBool True"
proof -
  have d: "adminDb w0 = Some db0"
    by (simp add: w0_def)
  have "adminDb (snd (enableIAMaintenance w0 ''alice'' None)) \<noteq> None"
    using d by (simp add: enableIAMaintenance_def read_clock_def adminDb_log_None)
  then obtain d1 where d1: "adminDb (snd (enableIAMaintenance w0 ''alice'' None)) = Some d1"
    by blast
  have "nested_field (maintenance_doc w0) ''iaService'' ''enabled'' = JBool True"
    by (simp add: maintenance_doc_def nested_field_def get_field_def w0_def db0_def)
  then show ?thesis
    using subservice_maintenance_polarity [OF d, of "''alice''" None]
          subservice_maintenance_polarity [OF d, of "''alice''" "Some ''later''"]
          subservice_maintenance_polarity [OF d1, of "''alice''" None]
    by simp
qed

lemma maintenance_doc_eq:
  "adminDb w = Some d \<Longrightarrow>
   maintenance_doc w = (case map_of (config d) ''maintenance'' of None \<Rightarrow> [] | Some m \<Rightarrow> m)"
  by (simp add: maintenance_doc_def)

lemma enableGlobalMaintenance_doc:
  assumes "adminDb w = Some d"
  shows "adminDb (snd (enableGlobalMaintenance w a m)) \<noteq> None
       \<and> maintenance_doc (snd (enableGlobalMaintenance w a m)) =
           merge_fields (maintenance_doc w)
             [(''isGlobalMaintenance'', JBool True),
              (''message'', js_or (opt_str m) (JStr ''System maintenance in progress'')),
              (''enabledAt'', JTime (clock w (clock_reads w))),
              (''enabledBy'', JStr a)]"
  using assms
  by (simp add: enableGlobalMaintenance_def read_clock_def adminDb_log_None maintenance_doc_log
        maintenance_doc_set maintenance_doc_eq [OF assms] del: merge_fields.simps)

lemma enablePartialMaintenance_doc:
  assumes "adminDb w = Some d"
  shows "adminDb (snd (enablePartialMaintenance w a ss m)) \<noteq> None
       \<and> maintenance_doc (snd (enablePartialMaintenance w a ss m)) =
           merge_fields (maintenance_doc w)
             [(''partialServices'', JList (map JStr ss)),
              (''message'', js_or (opt_str m) (JStr ''Some services are under maintenance'')),
              (''enabledAt'', JTime (clock w (clock_reads w))),
              (''enabledBy'', JStr a)]"
  using assms
  by (simp add: enablePartialMaintenance_def read_clock_def adminDb_log_None maintenance_doc_log
        maintenance_doc_set maintenance_doc_eq [OF assms] del: merge_fields.simps)

lemma disableGlobalMaintenance_doc:
  assumes "adminDb w = Some d"
  shows "fst (disableGlobalMaintenance w a) = Inr ()
       \<and> maintenance_doc (snd (disableGlobalMaintenance w a)) =
           merge_fields (maintenance_doc w) [(''isGlobalMaintenance'', JBool False)]"
  using assms
  by (simp add: disableGlobalMaintenance_def logAdminAction_fst maintenance_doc_log
        maintenance_doc_set maintenance_doc_eq [OF assms] del: merge_fields.simps)

lemma disablePartialMaintenance_doc:
  assumes "adminDb w = Some d"
  shows "fst (disablePartialMaintenance w a) = Inr ()
       \<and> maintenance_doc (snd (disablePartialMaintenance w a)) =
           merge_fields (maintenance_doc w) [(''partialServices'', JList [])]"
  using assms
  by (simp add: disablePartialMaintenance_def logAdminAction_fst maintenance_doc_log
        maintenance_doc_set maintenance_doc_eq [OF assms] del: merge_fields.simps)

text \<open>
  C10. With the store initialized, \<^verbatim>\<open>disableGlobalMaintenance\<close> leaves
  \<^verbatim>\<open>isGlobalMaintenance\<close> at \<^verbatim>\<open>false\<close> and every other field \<open>f\<close> of the maintenance
  document as it was; \<^verbatim>\<open>disablePartialMaintenance\<close> leaves \<^verbatim>\<open>partialServices\<close> at the
  empty list and every other field as it was. In particular the \<^verbatim>\<open>message\<close>,
  \<^verbatim>\<open>enabledAt\<close> and \<^verbatim>\<open>enabledBy\<close> written by the corresponding enable call are still there
  after the disable call.
\<close>

theorem disable_maintenance_frame:
  assumes "adminDb w = Some d"
  shows "fst (disableGlobalMaintenance w adminUid) = Inr ()
       \<and> map_of (maintenance_doc (snd (disableGlobalMaintenance w adminUid))) ''isGlobalMaintenance''
           = Some (JBool False)
       \<and> (f \<noteq> ''isGlobalMaintenance'' \<longrightarrow>
            map_of (maintenance_doc (snd (disableGlobalMaintenance w adminUid))) f
              = map_of (maintenance_doc w) f)
       \<and> fst (disablePartialMaintenance w adminUid) = Inr ()
       \<and> map_of (maintenance_doc (snd (disablePartialMaintenance w adminUid))) ''partialServices''
           = Some (JList [])
       \<and> (f \<noteq> ''partialServices'' \<longrightarrow>
            map_of (maintenance_doc (snd (disablePartialMaintenance w adminUid))) f
              = map_of (maintenance_doc w) f)
       \<and> map (map_of (maintenance_doc
                 (snd (disableGlobalMaintenance (snd (enableGlobalMaintenance w enabler message)) adminUid))))
             [''message'', ''enabledAt'', ''enabledBy'']
           = [Some (js_or (opt_str message) (JStr ''System maintenance in progress'')),
              Some (JTime (clock w (clock_reads w))),
              Some (JStr enabler)]
       \<and> map (map_of (maintenance_doc
                 (snd (disablePartialMaintenance
                        (snd (enablePartialMaintenance w enabler services message)) adminUid))))
             [''message'', ''enabledAt'', ''enabledBy'']
           = [Some (js_or (opt_str message) (JStr ''Some services are under maintenance'')),
              Some (JTime (clock w (clock_reads w))),
              Some (JStr enabler)]"
proof -
  obtain d1 where d1: "adminDb (snd (enableGlobalMaintenance w enabler message)) = Some d1"
    using enableGlobalMaintenance_doc [OF assms, of enabler message] by blast
  obtain d2 where d2: "adminDb (snd (enablePartialMaintenance w enabler services message)) = Some d2"
    using enablePartialMaintenance_doc [OF assms, of enabler services message] by blast
  show ?thesis
    by (simp add: disableGlobalMaintenance_doc [OF assms] disablePartialMaintenance_doc [OF assms]
          disableGlobalMaintenance_doc [OF d1] disablePartialMaintenance_doc [OF d2]
          enableGlobalMaintenance_doc [OF assms] enablePartialMaintenance_doc [OF assms]
          merge_fields_other AList.update_conv' js_or_opt_str)
qed

theorem disable_maintenance_frame_witness:
  "map_of (maintenance_doc w0) ''message'' = Some (JStr ''back soon'')
   \<and> map_of (maintenance_doc (snd (disableGlobalMaintenance w0 ''alice''))) ''isGlobalMaintenance''
       = Some (JBool False)
   \<and> map_of (maintenance_doc (snd (disableGlobalMaintenance w0 ''alice''))) ''message''
       = Some (JStr ''back soon'')
   \<and> map_of (maintenance_doc (snd (disablePartialMaintenance w0 ''alice''))) ''partialServices''
       = Some (JList [])
   \<and> map_of (maintenance_doc (snd (disablePartialMaintenance w0 ''alice''))) ''message''
       = Some (JStr ''back soon'')"
proof -
  have d: "adminDb w0 = Some db0"
    by (simp add: w0_def)
  have m: "map_of (maintenance_doc w0) ''message'' = Some (JStr ''back soon'')"
    by (simp add: maintenance_doc_def w0_def db0_def)
  show ?thesis
    using disable_maintenance_frame [OF d, of "''alice''" "''message''"] m by simp
qed

section \<open>Audit logging is best effort\<close>

text \<open>
  Every command that calls \<^verbatim>\<open>logAdminAction\<close> returns the same outcome and leaves the same
  users, licenses and config whatever the store answers to the append.
\<close>

lemmas append_simps =
  logAdminAction_fst logAdminAction_case logAdminAction_entities [unfolded entities_def] entities_def
  read_clock_def read_random36_def Let_def

lemma verifyAdmin_append:
  "fst (verifyAdmin (w\<lparr>add_rejects := r\<rparr>) t) = fst (verifyAdmin w t)
   \<and> entities (snd (verifyAdmin (w\<lparr>add_rejects := r\<rparr>) t)) = entities (snd (verifyAdmin w t))"
  by (auto simp: verifyAdmin_def append_simps split: option.splits sum.splits)

lemma updateUserPlan_append:
  "fst (updateUserPlan (w\<lparr>add_rejects := r\<rparr>) a u p) = fst (updateUserPlan w a u p)
   \<and> entities (snd (updateUserPlan (w\<lparr>add_rejects := r\<rparr>) a u p))
       = entities (snd (updateUserPlan w a u p))"
  by (auto simp: updateUserPlan_def getUser_def coll_update_def append_simps
        split: option.splits sum.splits)

lemma banUser_append:
  "fst (banUser (w\<lparr>add_rejects := r\<rparr>) a u s) = fst (banUser w a u s)
   \<and> entities (snd (banUser (w\<lparr>add_rejects := r\<rparr>) a u s)) = entities (snd (banUser w a u s))"
  by (auto simp: banUser_def getUser_def coll_update_def append_simps
        split: option.splits sum.splits)

lemma createLicense_append:
  "fst (createLicense (w\<lparr>add_rejects := r\<rparr>) a p n) = fst (createLicense w a p n)
   \<and> entities (snd (createLicense (w\<lparr>add_rejects := r\<rparr>) a p n))
       = entities (snd (createLicense w a p n))"
  by (auto simp: createLicense_def append_simps split: option.splits sum.splits)

lemma purgeInvalidLicenses_append:
  "fst (purgeInvalidLicenses (w\<lparr>add_rejects := r\<rparr>) a) = fst (purgeInvalidLicenses w a)
   \<and> entities (snd (purgeInvalidLicenses (w\<lparr>add_rejects := r\<rparr>) a))
       = entities (snd (purgeInvalidLicenses w a))"
  by (auto simp: purgeInvalidLicenses_def append_simps split: option.splits sum.splits)

lemma clearOldLogs_append:
  "fst (clearOldLogs (w\<lparr>add_rejects := r\<rparr>) a n) = fst (clearOldLogs w a n)
   \<and> entities (snd (clearOldLogs (w\<lparr>add_rejects := r\<rparr>) a n))
       = entities (snd (clearOldLogs w a n))"
  by (auto simp: clearOldLogs_def append_simps split: option.splits sum.splits)

lemma global_maintenance_append:
  "fst (enableGlobalMaintenance (w\<lparr>add_rejects := r\<rparr>) a m) = fst (enableGlobalMaintenance w a m)
   \<and> entities (snd (enableGlobalMaintenance (w\<lparr>add_rejects := r\<rparr>) a m))
       = entities (snd (enableGlobalMaintenance w a m))
   \<and> fst (disableGlobalMaintenance (w\<lparr>add_rejects := r\<rparr>) a) = fst (disableGlobalMaintenance w a)
   \<and> entities (snd (disableGlobalMaintenance (w\<lparr>add_rejects := r\<rparr>) a))
       = entities (snd (disableGlobalMaintenance w a))"
  by (auto simp: enableGlobalMaintenance_def disableGlobalMaintenance_def append_simps
        split: option.splits sum.splits)

lemma partial_maintenance_append:
  "fst (enablePartialMaintenance (w\<lparr>add_rejects := r\<rparr>) a ss m) = fst (enablePartialMaintenance w a ss m)
   \<and> entities (snd (enablePartialMaintenance (w\<lparr>add_rejects := r\<rparr>) a ss m))
       = entities (snd (enablePartialMaintenance w a ss m))
   \<and> fst (disablePartialMaintenance (w\<lparr>add_rejects := r\<rparr>) a) = fst (disablePartialMaintenance w a)
   \<and> entities (snd (disablePartialMaintenance (w\<lparr>add_rejects := r\<rparr>) a))
       = entities (snd (disablePartialMaintenance w a))"
  by (auto simp: enablePartialMaintenance_def disablePartialMaintenance_def append_simps
        split: option.splits sum.splits)

lemma ia_maintenance_append:
  "fst (enableIAMaintenance (w\<lparr>add_rejects := r\<rparr>) a m) = fst (enableIAMaintenance w a m)
   \<and> entities (snd (enableIAMaintenance (w\<lparr>add_rejects := r\<rparr>) a m))
       = entities (snd (enableIAMaintenance w a m))
   \<and> fst (disableIAMaintenance (w\<lparr>add_rejects := r\<rparr>) a) = fst (disableIAMaintenance w a)
   \<and> entities (snd (disableIAMaintenance (w\<lparr>add_rejects := r\<rparr>) a))
       = entities (snd (disableIAMaintenance w a))"
  by (auto simp: enableIAMaintenance_def disableIAMaintenance_def append_simps
        split: option.splits sum.splits)

lemma license_maintenance_append:
  "fst (enableLicenseMaintenance (w\<lparr>add_rejects := r\<rparr>) a m) = fst (enableLicenseMaintenance w a m)
   \<and> entities (snd (enableLicenseMaintenance (w\<lparr>add_rejects := r\<rparr>) a m))
       = entities (snd (enableLicenseMaintenance w a m))
   \<and> fst (disableLicenseMaintenance (w\<lparr>add_rejects := r\<rparr>) a) = fst (disableLicenseMaintenance w a)
   \<and> entities (snd (disableLicenseMaintenance (w\<lparr>add_rejects := r\<rparr>) a))
       = entities (snd (disableLicenseMaintenance w a))"
  by (auto simp: enableLicenseMaintenance_def disableLicenseMaintenance_def append_simps
        split: option.splits sum.splits)

text \<open>
  C7. \<^verbatim>\<open>logAdminAction\<close> always returns normally and never changes users, licenses or
  config: without a store it does nothing, and when the store rejects the append the log
  is as it was. Consequently the outcome of each command that calls it, and the users,
  licenses and config the command leaves behind, do not depend on whether appends are
  rejected (\<open>r\<close> is any behaviour of the store towards appends).
\<close>

theorem logAdminAction_never_throws:
  "fst (logAdminAction w adminUid action data) = Inr ()
   \<and> entities (snd (logAdminAction w adminUid action data)) = entities w
   \<and> logAdminAction (w\<lparr>adminDb := None\<rparr>) adminUid action data = (Inr (), w\<lparr>adminDb := None\<rparr>)
   \<and> logs_of (snd (logAdminAction (w\<lparr>add_rejects := (\<lambda>n. True)\<rparr>) adminUid action data)) = logs_of w
   \<and> fst (verifyAdmin (w\<lparr>add_rejects := r\<rparr>) idToken) = fst (verifyAdmin w idToken)
   \<and> entities (snd (verifyAdmin (w\<lparr>add_rejects := r\<rparr>) idToken)) = entities (snd (verifyAdmin w idToken))
   \<and> fst (updateUserPlan (w\<lparr>add_rejects := r\<rparr>) adminUid userId p) = fst (updateUserPlan w adminUid userId p)
   \<and> entities (snd (updateUserPlan (w\<lparr>add_rejects := r\<rparr>) adminUid userId p))
       = entities (snd (updateUserPlan w adminUid userId p))
   \<and> fst (banUser (w\<lparr>add_rejects := r\<rparr>) adminUid userId reason) = fst (banUser w adminUid userId reason)
   \<and> entities (snd (banUser (w\<lparr>add_rejects := r\<rparr>) adminUid userId reason))
       = entities (snd (banUser w adminUid userId reason))
   \<and> fst (createLicense (w\<lparr>add_rejects := r\<rparr>) adminUid p days) = fst (createLicense w adminUid p days)
   \<and> entities (snd (createLicense (w\<lparr>add_rejects := r\<rparr>) adminUid p days))
       = entities (snd (createLicense w adminUid p days))
   \<and> fst (purgeInvalidLicenses (w\<lparr>add_rejects := r\<rparr>) adminUid) = fst (purgeInvalidLicenses w adminUid)
   \<and> entities (snd (purgeInvalidLicenses (w\<lparr>add_rejects := r\<rparr>) adminUid))
       = entities (snd (purgeInvalidLicenses w adminUid))
   \<and> fst (clearOldLogs (w\<lparr>add_rejects := r\<rparr>) adminUid days) = fst (clearOldLogs w adminUid days)
   \<and> entities (snd (clearOldLogs (w\<lparr>add_rejects := r\<rparr>) adminUid days))
       = entities (snd (clearOldLogs w adminUid days))
   \<and> fst (enableGlobalMaintenance (w\<lparr>add_rejects := r\<rparr>) adminUid message)
       = fst (enableGlobalMaintenance w adminUid message)
   \<and> entities (snd (enableGlobalMaintenance (w\<lparr>add_rejects := r\<rparr>) adminUid message))
       = entities (snd (enableGlobalMaintenance w adminUid message))
   \<and> fst (disableGlobalMaintenance (w\<lparr>add_rejects := r\<rparr>) adminUid)
       = fst (disableGlobalMaintenance w adminUid)
   \<and> entities (snd (disableGlobalMaintenance (w\<lparr>add_rejects := r\<rparr>) adminUid))
       = entities (snd (disableGlobalMaintenance w adminUid))
   \<and> fst (enablePartialMaintenance (w\<lparr>add_rejects := r\<rparr>) adminUid services message)
       = fst (enablePartialMaintenance w adminUid services message)
   \<and> entities (snd (enablePartialMaintenance (w\<lparr>add_rejects := r\<rparr>) adminUid services message))
       = entities (snd (enablePartialMaintenance w adminUid services message))
   \<and> fst (disablePartialMaintenance (w\<lparr>add_rejects := r\<rparr>) adminUid)
       = fst (disablePartialMaintenance w adminUid)
   \<and> entities (snd (disablePartialMaintenance (w\<lparr>add_rejects := r\<rparr>) adminUid))
       = entities (snd (disablePartialMaintenance w adminUid))
   \<and> fst (enableIAMaintenance (w\<lparr>add_rejects := r\<rparr>) adminUid message)
       = fst (enableIAMaintenance w adminUid message)
   \<and> entities (snd (enableIAMaintenance (w\<lparr>add_rejects := r\<rparr>) adminUid message))
       = entities (snd (enableIAMaintenance w adminUid message))
   \<and> fst (disableIAMaintenance (w\<lparr>add_rejects := r\<rparr>) adminUid)
       = fst (disableIAMaintenance w adminUid)
   \<and> entities (snd (disableIAMaintenance (w\<lparr>add_rejects := r\<rparr>) adminUid))
       = entities (snd (disableIAMaintenance w adminUid))
   \<and> fst (enableLicenseMaintenance (w\<lparr>add_rejects := r\<rparr>) adminUid message)
       = fst (enableLicenseMaintenance w adminUid message)
   \<and> entities (snd (enableLicenseMaintenance (w\<lparr>add_rejects := r\<rparr>) adminUid message))
       = entities (snd (enableLicenseMaintenance w adminUid message))
   \<and> fst (disableLicenseMaintenance (w\<lparr>add_rejects := r\<rparr>) adminUid)
       = fst (disableLicenseMaintenance w adminUid)
   \<and> entities (snd (disableLicenseMaintenance (w\<lparr>add_rejects := r\<rparr>) adminUid))
       = entities (snd (disableLicenseMaintenance w adminUid))"
proof -
  have "logs_of (snd (logAdminAction (w\<lparr>add_rejects := (\<lambda>n. True)\<rparr>) adminUid action data)) = logs_of w"
    by (subst logAdminAction_logs) (simp add: logs_of_def)
  then show ?thesis
    by (simp only: logAdminAction_fst logAdminAction_entities verifyAdmin_append
          updateUserPlan_append banUser_append createLicense_append purgeInvalidLicenses_append
          clearOldLogs_append global_maintenance_append partial_maintenance_append
          ia_maintenance_append license_maintenance_append simp_thms)
       (simp add: logAdminAction_None)
qed

theorem logAdminAction_never_throws_witness:
  "fst (logAdminAction w_rejecting ''alice'' ''BAN_USER'' []) = Inr ()
   \<and> logs_of (snd (logAdminAction w_rejecting ''alice'' ''BAN_USER'' [])) = logs_of w0
   \<and> fst (banUser w_rejecting ''alice'' ''bob'' ''spam'') = fst (banUser w0 ''alice'' ''bob'' ''spam'')
   \<and> entities (snd (banUser w_rejecting ''alice'' ''bob'' ''spam''))
       = entities (snd (banUser w0 ''alice'' ''bob'' ''spam''))"
  using logAdminAction_never_throws
          [where w = w0 and r = "\<lambda>n. True" and adminUid = "''alice''" and action = "''BAN_USER''"
             and data = "[]" and userId = "''bob''" and reason = "''spam''"]
        logAdminAction_never_throws
          [where w = w_rejecting and adminUid = "''alice''" and action = "''BAN_USER''" and data = "[]"]
  by (simp add: w_rejecting_def)

section \<open>Bulk deletes\<close>

lemma count_active_filter:
  "count_active xs n = n + length (filter (\<lambda>kd. get_field (snd kd) ''valid'' \<noteq> JBool False) xs)"
  by (induction xs arbitrary: n) auto

lemma batch_delete_filter: "batch_delete c ks = filter (\<lambda>kd. fst kd \<notin> set ks) c"
proof (induction ks arbitrary: c)
  case Nil
  then show ?case by simp
next
  case (Cons k ks)
  have "AList.delete k c = filter (\<lambda>kd. fst kd \<noteq> k) c"
    by (induction c) auto
  with Cons show ?case
    by (auto intro: filter_cong)
qed

lemma batch_delete_snapshot:
  assumes "distinct (map fst c)"
  shows "batch_delete c (map fst (filter P c)) = filter (\<lambda>kd. \<not> P kd) c"
proof -
  have "fst kd \<in> fst ` {x \<in> set c. P x} \<longleftrightarrow> P kd" if "kd \<in> set c" for kd
  proof
    assume "fst kd \<in> fst ` {x \<in> set c. P x}"
    then obtain x where x: "x \<in> set c" "P x" "fst x = fst kd"
      by auto
    from assms have "inj_on fst (set c)"
      by (simp add: distinct_map)
    with x that have "x = kd"
      by (auto dest: inj_onD)
    with x show "P kd" by simp
  next
    assume "P kd"
    with that show "fst kd \<in> fst ` {x \<in> set c. P x}" by auto
  qed
  then show ?thesis
    by (auto simp: batch_delete_filter intro!: filter_cong)
qed





text \<open>
  C9. A license document \<open>l\<close> with id \<open>k\<close> that has no \<^verbatim>\<open>valid\<close> field counts as valid:
  \<^verbatim>\<open>getAllLicenses\<close> reports it, when it is within the limit, with \<^verbatim>\<open>valid\<close> true;
  \<^verbatim>\<open>getSystemStats\<close> counts it in \<^verbatim>\<open>activeLicenses\<close> (the count is one more than without the
  document); \<^verbatim>\<open>purgeInvalidLicenses\<close> removes exactly the documents whose \<^verbatim>\<open>valid\<close> is the
  boolean \<^verbatim>\<open>false\<close>, returns their number, and keeps this one.
\<close>

theorem absent_valid_is_valid:
  assumes "adminDb w = Some d" and "distinct (map fst (licenses d))"
    and "i < length (licenses d)" and "licenses d ! i = (k, l)" and "map_of l ''valid'' = None"
  shows "(i < limit \<longrightarrow>
            (\<exists>ls. getAllLicenses w limit = Inr ls \<and> i < length ls \<and> key (ls ! i) = k \<and> valid (ls ! i)))
       \<and> (\<exists>st st'. getSystemStats w = Inr st
             \<and> getSystemStats
                  (w\<lparr>adminDb := Some (d\<lparr>licenses := take i (licenses d) @ drop (Suc i) (licenses d)\<rparr>)\<rparr>)
                 = Inr st'
             \<and> activeLicenses st = Suc (activeLicenses st'))
       \<and> fst (purgeInvalidLicenses w adminUid)
           = Inr (length (filter (\<lambda>kd. map_of (snd kd) ''valid'' = Some (JBool False)) (licenses d)))
       \<and> (\<exists>d'. adminDb (snd (purgeInvalidLicenses w adminUid)) = Some d'
             \<and> licenses d' = filter (\<lambda>kd. map_of (snd kd) ''valid'' \<noteq> Some (JBool False)) (licenses d)
             \<and> (k, l) \<in> set (licenses d'))"
proof -
  have mem: "(k, l) \<in> set (licenses d)"
    using assms(3,4) by (metis nth_mem)
  have v: "get_field l ''valid'' \<noteq> JBool False"
    using assms(5) by (simp add: get_field_def)
  have 1: "i < limit \<longrightarrow>
            (\<exists>ls. getAllLicenses w limit = Inr ls \<and> i < length ls \<and> key (ls ! i) = k \<and> valid (ls ! i))"
    using assms(1,3,4) v by (simp add: getAllLicenses_def license_of_doc_def)
  have split: "licenses d = take i (licenses d) @ (k, l) # drop (Suc i) (licenses d)"
    using assms(3,4) by (metis id_take_nth_drop)
  have "count_active (licenses d) 0
          = Suc (count_active (take i (licenses d) @ drop (Suc i) (licenses d)) 0)"
    by (subst split) (simp add: count_active_filter v)
  then have 2: "\<exists>st st'. getSystemStats w = Inr st
             \<and> getSystemStats
                  (w\<lparr>adminDb := Some (d\<lparr>licenses := take i (licenses d) @ drop (Suc i) (licenses d)\<rparr>)\<rparr>)
                 = Inr st'
             \<and> activeLicenses st = Suc (activeLicenses st')"
    using assms(1) by (simp add: getSystemStats_def)
  have 3: "fst (purgeInvalidLicenses w adminUid)
           = Inr (length (filter (\<lambda>kd. map_of (snd kd) ''valid'' = Some (JBool False)) (licenses d)))"
    using assms(1) by (simp add: purgeInvalidLicenses_def Let_def logAdminAction_case)
  let ?gone = "filter (\<lambda>kd. map_of (snd kd) ''valid'' = Some (JBool False)) (licenses d)"
  let ?w1 = "w\<lparr>adminDb := Some (d\<lparr>licenses := batch_delete (licenses d) (map fst ?gone)\<rparr>)\<rparr>"
  let ?data = "[(''count'', JNum (int (length ?gone)))]"
  have s: "snd (purgeInvalidLicenses w adminUid)
             = snd (logAdminAction ?w1 adminUid ''PURGE_LICENSES'' ?data)"
    using assms(1) by (simp add: purgeInvalidLicenses_def Let_def logAdminAction_case)
  have "adminDb ?w1 = Some (d\<lparr>licenses :=
          filter (\<lambda>kd. map_of (snd kd) ''valid'' \<noteq> Some (JBool False)) (licenses d)\<rparr>)"
    by (simp add: batch_delete_snapshot [OF assms(2)])
  from logAdminAction_db [OF this, of adminUid "''PURGE_LICENSES''" ?data]
  obtain d' where d': "adminDb (snd (logAdminAction ?w1 adminUid ''PURGE_LICENSES'' ?data)) = Some d'"
    "licenses d' = filter (\<lambda>kd. map_of (snd kd) ''valid'' \<noteq> Some (JBool False)) (licenses d)"
    by auto
  have "(k, l) \<in> set (licenses d')"
    using d'(2) mem assms(5) by simp
  with d' s
  have 4: "\<exists>d'. adminDb (snd (purgeInvalidLicenses w adminUid)) = Some d'
             \<and> licenses d' = filter (\<lambda>kd. map_of (snd kd) ''valid'' \<noteq> Some (JBool False)) (licenses d)
             \<and> (k, l) \<in> set (licenses d')"
    by simp
  from 1 2 3 4 show ?thesis by blast
qed


theorem absent_valid_is_valid_witness:
  "(\<exists>ls. getAllLicenses w0 100 = Inr ls \<and> 0 < length ls \<and> key (ls ! 0) = ''LIC-1-AAAAAAAAA''
       \<and> valid (ls ! 0))
   \<and> (\<exists>st. getSystemStats w0 = Inr st \<and> activeLicenses st = 2)
   \<and> fst (purgeInvalidLicenses w0 ''alice'') = Inr 1
   \<and> (\<exists>d'. adminDb (snd (purgeInvalidLicenses w0 ''alice'')) = Some d'
         \<and> (''LIC-1-AAAAAAAAA'', [(''plan'', JStr ''Pro'')]) \<in> set (licenses d'))"
proof -
  have d: "adminDb w0 = Some db0"
    by (simp add: w0_def)
  have k: "distinct (map fst (licenses db0))" "0 < length (licenses db0)"
    "licenses db0 ! 0 = (''LIC-1-AAAAAAAAA'', [(''plan'', JStr ''Pro'')])"
    "map_of [(''plan'', JStr ''Pro'')] ''valid'' = None"
    by (simp_all add: db0_def)
  have st': "getSystemStats (w0\<lparr>adminDb :=
                Some (db0\<lparr>licenses := take 0 (licenses db0) @ drop (Suc 0) (licenses db0)\<rparr>)\<rparr>)
              = Inr st' \<Longrightarrow> activeLicenses st' = 1" for st'
    by (auto simp: getSystemStats_def db0_def get_field_def)
  have n: "length (filter (\<lambda>kd. map_of (snd kd) ''valid'' = Some (JBool False)) (licenses db0)) = 1"
    by (simp add: db0_def)
  show ?thesis
    using absent_valid_is_valid [OF d k, of 100 "''alice''"] st' n by auto
qed

section \<open>License keys\<close>




















end

